theory Spec2Isabelle
  imports Complex_Main
begin

section \<open>The mug designer: data model\<close>

text \<open>
  The program is one class, \<open>MugDesigner\<close>, in \<open>src/index.js\<close>. Its design surface is a
  fabric.js canvas. Its numbers are JavaScript numbers, which are doubles, and are
  modelled as reals: a value the model gives is the program's up to the rounding of
  its arithmetic, and the statements below that compare numbers do so at inputs
  where the difference is far larger than that rounding.
  A fabric object carries its placement (\<open>left\<close>, \<open>top\<close>, \<open>width\<close>, \<open>height\<close>, the field
  \<open>top\<close> is written \<open>top'\<close> here), its transform (\<open>scaleX\<close>, \<open>scaleY\<close>, \<open>angle\<close> in degrees),
  the origin its position refers to, and the flags the program sets on it.
\<close>

record rect =
  left :: real
  top' :: real
  width :: real
  height :: real

datatype origin = OriginNear | OriginCenter

datatype otype = IText | Image | Rect | Line

record fobj = rect +
  otype :: otype
  originX :: origin
  originY :: origin
  scaleX :: real
  scaleY :: real
  angle :: real
  strokeWidth :: real
  content :: string
  clipPath :: "rect option"
  grayscale :: bool
  visible :: bool
  selectable :: bool
  evented :: bool
  hasControls :: bool
  lockScalingX :: bool
  lockScalingY :: bool
  lockRotation :: bool
  patternImage :: bool
  excludeFromLayers :: bool
  excludeFromExport :: bool

text \<open>
  A canvas slot is either one of the four overlay objects the designer also keeps a
  reference to (\<open>this.safeRect\<close>, \<open>this.bleedRect\<close>, \<open>this.vGuide\<close>, \<open>this.hGuide\<close>), or a
  design object. The overlay objects live in the designer's fields, so that a change
  made through the field is the change seen through the canvas.
\<close>

datatype slot = SafeRect | BleedRect | VGuide | HGuide | Design fobj

text \<open>What \<open>toObject\<close> writes for one object, and the snapshot \<open>toJSON\<close> returns.\<close>

record jobj = rect +
  j_type :: otype
  j_originX :: origin
  j_originY :: origin
  j_scaleX :: real
  j_scaleY :: real
  j_angle :: real
  j_strokeWidth :: real
  j_content :: string
  j_clipPath :: "rect option"
  j_grayscale :: bool
  j_visible :: bool

type_synonym snapshot = "jobj list"

text \<open>A rasterisation of the canvas: the multiplier and the objects drawn, bottom first.\<close>

record raster =
  r_multiplier :: real
  r_drawn :: "fobj list"

record texture =
  t_image :: raster
  t_anisotropy :: nat
  t_sRGB :: bool

record mesh =
  m_map :: "texture option"
  m_needsUpdate :: bool
  m_color :: string

text \<open>
  The designer. \<open>meshes\<close>, \<open>history\<close> and \<open>patternMovable\<close> are the fields of the class;
  \<open>canvasWidth\<close>, \<open>canvasHeight\<close> and \<open>objects\<close> (bottom first) are the canvas; then
  the four overlay objects. \<open>innerWidth\<close> is the window's and \<open>maxAnisotropy\<close> the
  renderer's. The rest records what the program does to its environment: the number
  of renderings asked for, the number of warnings written to the console, the
  textures disposed of, and the timers: the clock in milliseconds, the pending timers
  (identifier and deadline), the next identifier, the variable \<open>timeout\<close> of the
  debounce closure, and the times at which a timer has fired.
\<close>

record designer =
  meshes :: "string \<rightharpoonup> mesh"
  history :: "snapshot list"
  patternMovable :: bool
  canvasWidth :: real
  canvasHeight :: real
  objects :: "slot list"
  safeRect :: fobj
  bleedRect :: fobj
  vGuide :: fobj
  hGuide :: fobj
  innerWidth :: real
  maxAnisotropy :: nat
  renders :: nat
  warnings :: nat
  disposed :: "texture list"
  now :: nat
  timers :: "(nat \<times> nat) list"
  nextTimer :: nat
  timeout :: "nat option"
  fired :: "nat list"

definition BLEED_MARGIN :: real where
  "BLEED_MARGIN = 10"

definition DEBOUNCE_TIME :: nat where
  "DEBOUNCE_TIME = 300"

definition DEFAULT_CANVAS_WIDTH :: real where
  "DEFAULT_CANVAS_WIDTH = 614"

definition DEFAULT_CANVAS_HEIGHT :: real where
  "DEFAULT_CANVAS_HEIGHT = 230"

definition deref :: "designer \<Rightarrow> slot \<Rightarrow> fobj" where
  "deref d c = (case c of SafeRect \<Rightarrow> safeRect d | BleedRect \<Rightarrow> bleedRect d
                | VGuide \<Rightarrow> vGuide d | HGuide \<Rightarrow> hGuide d | Design ob \<Rightarrow> ob)"

section \<open>Geometry of a fabric object\<close>

text \<open>
  \<open>getBoundingRect\<close>, \<open>getCenterPoint\<close> and \<open>setPositionByOrigin\<close> are fabric.js methods.
  An object's box has the dimensions \<open>(width + strokeWidth) * scaleX\<close> by
  \<open>(height + strokeWidth) * scaleY\<close>, is turned by \<open>angle\<close> degrees about its centre, and
  \<open>left\<close>, \<open>top\<close> give the position of the origin point: the centre, or the box's top
  left corner. The bounding rectangle is the axis-aligned hull of the turned box.
  The program never sets a skew, and the rectangle is computed here from the
  object's fields as they are, where fabric may return the corners it computed at
  the last \<open>setCoords\<close>.
\<close>

definition degreesToRadians :: "real \<Rightarrow> real" where
  "degreesToRadians a = a * pi / 180"

definition dimX :: "fobj \<Rightarrow> real" where
  "dimX ob = (width ob + strokeWidth ob) * scaleX ob"

definition dimY :: "fobj \<Rightarrow> real" where
  "dimY ob = (height ob + strokeWidth ob) * scaleY ob"

definition originOffset :: "fobj \<Rightarrow> real \<times> real" where
  "originOffset ob =
     (let ox = (if originX ob = OriginCenter then 0 else dimX ob / 2);
          oy = (if originY ob = OriginCenter then 0 else dimY ob / 2);
          t = degreesToRadians (angle ob)
      in if ox = 0 \<and> oy = 0 then (0, 0)
         else (ox * cos t - oy * sin t, ox * sin t + oy * cos t))"

definition getCenterPoint :: "fobj \<Rightarrow> real \<times> real" where
  "getCenterPoint ob = (left ob + fst (originOffset ob), top' ob + snd (originOffset ob))"

definition setPositionByOrigin :: "fobj \<Rightarrow> real \<times> real \<Rightarrow> fobj" where
  "setPositionByOrigin ob p =
     ob\<lparr>left := fst p - fst (originOffset ob), top' := snd p - snd (originOffset ob)\<rparr>"

definition getBoundingRect :: "fobj \<Rightarrow> rect" where
  "getBoundingRect ob =
     (let t = degreesToRadians (angle ob);
          hx = (\<bar>dimX ob * cos t\<bar> + \<bar>dimY ob * sin t\<bar>) / 2;
          hy = (\<bar>dimX ob * sin t\<bar> + \<bar>dimY ob * cos t\<bar>) / 2;
          c = getCenterPoint ob
      in \<lparr>left = fst c - hx, top' = snd c - hy, width = 2 * hx, height = 2 * hy\<rparr>)"

text \<open>One rectangle lies within another: all four edges.\<close>

definition rectWithin :: "rect \<Rightarrow> rect \<Rightarrow> bool" where
  "rectWithin b s \<longleftrightarrow>
     left s \<le> left b \<and> left b + width b \<le> left s + width s \<and>
     top' s \<le> top' b \<and> top' b + height b \<le> top' s + height s"

section \<open>The constraint engine\<close>

text \<open>
  \<open>checkBounds(obj)\<close>: the warning when the bounding rectangle leaves the bleed
  rectangle, and for an \<open>i-text\<close> object the rescaling and the clamping of \<open>left\<close> and
  \<open>top\<close>. The object is changed in place; the model returns it with the designer.
\<close>

definition outsideBleed :: "rect \<Rightarrow> rect \<Rightarrow> bool" where
  "outsideBleed bounds bleed \<longleftrightarrow>
     left bounds < left bleed \<or>
     left bounds + width bounds > left bleed + width bleed \<or>
     top' bounds < top' bleed \<or>
     top' bounds + height bounds > top' bleed + height bleed"

definition clampText :: "rect \<Rightarrow> fobj \<Rightarrow> fobj" where
  "clampText safe ob =
     (let objWidth = width ob * scaleX ob;
          objHeight = height ob * scaleY ob;
          maxWidth = width safe;
          maxHeight = height safe;
          ob1 = (if objWidth > maxWidth then ob\<lparr>scaleX := maxWidth / width ob\<rparr> else ob);
          objWidth = (if objWidth > maxWidth then maxWidth else objWidth);
          ob2 = (if objHeight > maxHeight then ob1\<lparr>scaleY := maxHeight / height ob1\<rparr> else ob1);
          objHeight = (if objHeight > maxHeight then maxHeight else objHeight);
          objHalfW = objWidth / 2;
          objHalfH = objHeight / 2;
          minX = left safe + objHalfW;
          maxX = left safe + width safe - objHalfW;
          minY = top' safe + objHalfH;
          maxY = top' safe + height safe - objHalfH;
          ob3 = (if left ob2 < minX then ob2\<lparr>left := minX\<rparr> else ob2);
          ob4 = (if left ob3 > maxX then ob3\<lparr>left := maxX\<rparr> else ob3);
          ob5 = (if top' ob4 < minY then ob4\<lparr>top' := minY\<rparr> else ob4);
          ob6 = (if top' ob5 > maxY then ob5\<lparr>top' := maxY\<rparr> else ob5)
      in ob6)"

definition checkBounds :: "designer \<Rightarrow> fobj option \<Rightarrow> fobj option \<times> designer" where
  "checkBounds d target =
     (case target of
        None \<Rightarrow> (None, d)
      | Some ob \<Rightarrow>
          (let bounds = getBoundingRect ob;
               safe = getBoundingRect (safeRect d);
               bleed = getBoundingRect (bleedRect d);
               d1 = (if outsideBleed bounds bleed then d\<lparr>warnings := warnings d + 1\<rparr> else d)
           in (Some (if otype ob = IText then clampText safe ob else ob), d1)))"

section \<open>Construction\<close>

text \<open>
  The defaults of a new fabric object (origin at the top left corner, scale 1, stroke
  width 1, visible and interactive), and the objects the program creates.
\<close>

definition newObject :: "otype \<Rightarrow> fobj" where
  "newObject ty =
     \<lparr>left = 0, top' = 0, width = 0, height = 0, otype = ty,
      originX = OriginNear, originY = OriginNear, scaleX = 1, scaleY = 1, angle = 0,
      strokeWidth = (if ty = Image then 0 else 1), content = [], clipPath = None,
      grayscale = False, visible = True, selectable = True, evented = True,
      hasControls = True, lockScalingX = False, lockScalingY = False,
      lockRotation = False, patternImage = False, excludeFromLayers = False,
      excludeFromExport = False\<rparr>"

definition overlay :: "fobj \<Rightarrow> fobj" where
  "overlay ob = ob\<lparr>selectable := False, evented := False, excludeFromLayers := True,
                   excludeFromExport := True\<rparr>"

definition newSafeRect :: "real \<Rightarrow> real \<Rightarrow> fobj" where
  "newSafeRect w h =
     (let marginTop = 3; marginBottom = 5; marginLeft = 60; marginRight = 60
      in overlay ((newObject Rect)\<lparr>left := marginLeft, top' := marginTop,
           width := w - (marginLeft + marginRight),
           height := h - (marginTop + marginBottom), strokeWidth := 4 / 10\<rparr>))"

definition newBleedRect :: "real \<Rightarrow> real \<Rightarrow> fobj" where
  "newBleedRect w h =
     overlay ((newObject Rect)\<lparr>left := - BLEED_MARGIN, top' := - BLEED_MARGIN,
       width := w + BLEED_MARGIN * 2, height := h + BLEED_MARGIN * 2\<rparr>)"

text \<open>
  A fabric line from \<open>(x1, y1)\<close> to \<open>(x2, y2)\<close> is placed at the smaller coordinates
  and has the differences as its size.
\<close>

definition newLine :: "real \<Rightarrow> real \<Rightarrow> real \<Rightarrow> real \<Rightarrow> fobj" where
  "newLine x1 y1 x2 y2 =
     (overlay ((newObject Line)\<lparr>left := min x1 x2, top' := min y1 y2,
        width := \<bar>x2 - x1\<bar>, height := \<bar>y2 - y1\<bar>\<rparr>))\<lparr>visible := False\<rparr>"

text \<open>
  The constructor's fields before \<open>setupFabric\<close>, for a window of the given inner width
  and a renderer of the given maximal anisotropy; the canvas does not exist yet.
\<close>

definition blank :: "real \<Rightarrow> nat \<Rightarrow> designer" where
  "blank iw aniso =
     \<lparr>meshes = Map.empty, history = [], patternMovable = False,
      canvasWidth = 0, canvasHeight = 0, objects = [],
      safeRect = newObject Rect, bleedRect = newObject Rect,
      vGuide = newObject Line, hGuide = newObject Line,
      innerWidth = iw, maxAnisotropy = aniso, renders = 0, warnings = 0,
      disposed = [], now = 0, timers = [], nextTimer = 0, timeout = None, fired = []\<rparr>"

text \<open>
  \<open>canvas.sendToBack(obj)\<close> takes the object out of the list and puts it first;
  \<open>canvas.add\<close> appends. In \<open>setupFabric\<close> no event handler is registered yet.
\<close>

definition sendToBack :: "designer \<Rightarrow> slot \<Rightarrow> designer" where
  "sendToBack d c = d\<lparr>objects := c # remove1 c (objects d)\<rparr>"

definition addSilently :: "designer \<Rightarrow> slot \<Rightarrow> designer" where
  "addSilently d c = d\<lparr>objects := objects d @ [c]\<rparr>"

definition setupFabric :: "designer \<Rightarrow> designer" where
  "setupFabric d =
     (let printWidth = DEFAULT_CANVAS_WIDTH;
          printHeight = DEFAULT_CANVAS_HEIGHT;
          d1 = d\<lparr>canvasWidth := printWidth, canvasHeight := printHeight, objects := []\<rparr>;
          d2 = d1\<lparr>safeRect := newSafeRect printWidth printHeight\<rparr>;
          d3 = sendToBack (addSilently d2 SafeRect) SafeRect;
          d4 = d3\<lparr>bleedRect := newBleedRect printWidth printHeight\<rparr>;
          d5 = sendToBack (addSilently d4 BleedRect) BleedRect;
          d6 = d5\<lparr>vGuide := newLine (printWidth / 2) 0 (printWidth / 2) printHeight,
                  hGuide := newLine 0 (printHeight / 2) printWidth (printHeight / 2)\<rparr>
      in addSilently (addSilently d6 VGuide) HGuide)"

section \<open>Event handlers and the canvas\<close>

definition renderAll :: "designer \<Rightarrow> designer" where
  "renderAll d = d\<lparr>renders := renders d + 1\<rparr>"

text \<open>
  \<open>snapToCenter(obj, snapPx = 10)\<close>. The centre is read once, before either test; each
  test that succeeds repositions the object from that centre.
\<close>

definition snapToCenter :: "designer \<Rightarrow> fobj \<Rightarrow> real \<Rightarrow> fobj \<times> designer" where
  "snapToCenter d ob snapPx =
     (let center = getCenterPoint ob;
          snapX = (\<bar>fst center - canvasWidth d / 2\<bar> < snapPx);
          ob1 = (if snapX then setPositionByOrigin ob (canvasWidth d / 2, snd center) else ob);
          d1 = d\<lparr>vGuide := (vGuide d)\<lparr>visible := snapX\<rparr>\<rparr>;
          snapY = (\<bar>snd center - canvasHeight d / 2\<bar> < snapPx);
          ob2 = (if snapY then setPositionByOrigin ob1 (fst center, canvasHeight d / 2) else ob1);
          d2 = d1\<lparr>hGuide := (hGuide d1)\<lparr>visible := snapY\<rparr>\<rparr>;
          snapped = (snapX \<or> snapY)
      in (ob2, if snapped then renderAll d2 else d2))"

subsection \<open>Snapshots\<close>

text \<open>
  \<open>canvas.toJSON()\<close> is called without a list of additional properties. fabric then
  writes, for every object not flagged \<open>excludeFromExport\<close>, the fixed property list of
  its class, the geometric numbers rounded to \<open>NUM_FRACTION_DIGITS = 2\<close> decimals by
  \<open>toFixed\<close>; a property the program adds to an object, as \<open>patternImage\<close>, and the
  interaction flags are not written. \<open>loadFromJSON\<close> builds new objects from
  what was written, every other property at its default, and puts them on the canvas
  in place of the objects it had; the events fabric fires while it does so are not
  modelled. \<open>toFixed\<close> rounds the exact value here; JavaScript rounds the double, which
  gives the neighbouring hundredth where the exact value lies halfway between two.
\<close>

definition NUM_FRACTION_DIGITS :: nat where
  "NUM_FRACTION_DIGITS = 2"

definition toFixed :: "real \<Rightarrow> nat \<Rightarrow> real" where
  "toFixed x n =
     (if x < 0 then - (real_of_int \<lfloor>- x * 10 ^ n + 1 / 2\<rfloor> / 10 ^ n)
      else real_of_int \<lfloor>x * 10 ^ n + 1 / 2\<rfloor> / 10 ^ n)"

definition rectToObject :: "rect \<Rightarrow> rect" where
  "rectToObject r =
     \<lparr>left = toFixed (left r) NUM_FRACTION_DIGITS, top' = toFixed (top' r) NUM_FRACTION_DIGITS,
      width = toFixed (width r) NUM_FRACTION_DIGITS,
      height = toFixed (height r) NUM_FRACTION_DIGITS\<rparr>"

definition toObject :: "fobj \<Rightarrow> jobj" where
  "toObject ob =
     \<lparr>left = toFixed (left ob) NUM_FRACTION_DIGITS,
      top' = toFixed (top' ob) NUM_FRACTION_DIGITS,
      width = toFixed (width ob) NUM_FRACTION_DIGITS,
      height = toFixed (height ob) NUM_FRACTION_DIGITS,
      j_type = otype ob, j_originX = originX ob, j_originY = originY ob,
      j_scaleX = toFixed (scaleX ob) NUM_FRACTION_DIGITS,
      j_scaleY = toFixed (scaleY ob) NUM_FRACTION_DIGITS,
      j_angle = toFixed (angle ob) NUM_FRACTION_DIGITS,
      j_strokeWidth = toFixed (strokeWidth ob) NUM_FRACTION_DIGITS,
      j_content = content ob, j_clipPath = map_option rectToObject (clipPath ob),
      j_grayscale = grayscale ob, j_visible = visible ob\<rparr>"

definition fromObject :: "jobj \<Rightarrow> fobj" where
  "fromObject j =
     (newObject (j_type j))\<lparr>left := left j, top' := top' j, width := width j,
        height := height j, originX := j_originX j, originY := j_originY j,
        scaleX := j_scaleX j, scaleY := j_scaleY j, angle := j_angle j,
        strokeWidth := j_strokeWidth j, content := j_content j,
        clipPath := j_clipPath j, grayscale := j_grayscale j, visible := j_visible j\<rparr>"

definition exported :: "designer \<Rightarrow> fobj list" where
  "exported d = filter (\<lambda>ob. \<not> excludeFromExport ob) (map (deref d) (objects d))"

definition toJSON :: "designer \<Rightarrow> snapshot" where
  "toJSON d = map toObject (exported d)"

definition restore :: "snapshot \<Rightarrow> slot list" where
  "restore snap = map (\<lambda>j. Design (fromObject j)) snap"

definition loadFromJSON :: "designer \<Rightarrow> snapshot \<Rightarrow> designer" where
  "loadFromJSON d snap = d\<lparr>objects := restore snap\<rparr>"

text \<open>\<open>saveHistory()\<close>: push the snapshot, and drop the oldest one beyond 50.\<close>

definition saveHistory :: "designer \<Rightarrow> designer" where
  "saveHistory d =
     (let h = history d @ [toJSON d]
      in d\<lparr>history := (if length h > 50 then tl h else h)\<rparr>)"

subsection \<open>The texture bake\<close>

definition setVisibleIfExcluded :: "bool \<Rightarrow> fobj \<Rightarrow> fobj" where
  "setVisibleIfExcluded v ob = (if excludeFromExport ob then ob\<lparr>visible := v\<rparr> else ob)"

definition setExportVisible :: "bool \<Rightarrow> designer \<Rightarrow> designer" where
  "setExportVisible v d =
     d\<lparr>objects := map (\<lambda>c. case c of Design ob \<Rightarrow> Design (setVisibleIfExcluded v ob) | _ \<Rightarrow> c)
                     (objects d),
       safeRect := (if SafeRect \<in> set (objects d) then setVisibleIfExcluded v (safeRect d)
                    else safeRect d),
       bleedRect := (if BleedRect \<in> set (objects d) then setVisibleIfExcluded v (bleedRect d)
                     else bleedRect d),
       vGuide := (if VGuide \<in> set (objects d) then setVisibleIfExcluded v (vGuide d)
                  else vGuide d),
       hGuide := (if HGuide \<in> set (objects d) then setVisibleIfExcluded v (hGuide d)
                  else hGuide d)\<rparr>"

definition toDataURL :: "designer \<Rightarrow> real \<Rightarrow> raster" where
  "toDataURL d multiplier =
     \<lparr>r_multiplier = multiplier, r_drawn = filter visible (map (deref d) (objects d))\<rparr>"

text \<open>
  \<open>updateMugTexture()\<close>. The texture loader's callback, which binds the texture, is
  run at once.
\<close>

definition updateMugTexture :: "designer \<Rightarrow> designer" where
  "updateMugTexture d =
     (case meshes d ''Object_4'' of
        None \<Rightarrow> d
      | Some outerMug \<Rightarrow>
          (let d1 = renderAll (setExportVisible False d);
               multiplier = min 4 (innerWidth d1 / 500);
               dataURL = toDataURL d1 multiplier;
               d2 = renderAll (setExportVisible True d1);
               tex = \<lparr>t_image = dataURL, t_anisotropy = maxAnisotropy d2, t_sRGB = True\<rparr>;
               d3 = (case m_map outerMug of
                       Some old \<Rightarrow> d2\<lparr>disposed := disposed d2 @ [old]\<rparr>
                     | None \<Rightarrow> d2)
           in d3\<lparr>meshes := (meshes d3)(''Object_4'' \<mapsto>
                   outerMug\<lparr>m_map := Some tex, m_needsUpdate := True\<rparr>)\<rparr>))"

subsection \<open>Timers and the debounced update\<close>

text \<open>
  \<open>setTimeout\<close> registers a timer (its identifier and its deadline) and returns the
  identifier; \<open>clearTimeout\<close> removes the timer with the given identifier, and does
  nothing for \<open>undefined\<close> or for a timer that is gone. \<open>debounce(func, wait)\<close> keeps
  the identifier of its last timer in the variable \<open>timeout\<close>; the one debounced
  function of the program is \<open>debouncedUpdate\<close>, with \<open>updateMugTexture\<close> and
  \<open>DEBOUNCE_TIME\<close>.
\<close>

definition setTimeout :: "designer \<Rightarrow> nat \<Rightarrow> nat \<times> designer" where
  "setTimeout d wait =
     (nextTimer d,
      d\<lparr>timers := timers d @ [(nextTimer d, now d + wait)], nextTimer := nextTimer d + 1\<rparr>)"

definition clearTimeout :: "designer \<Rightarrow> nat option \<Rightarrow> designer" where
  "clearTimeout d t =
     (case t of None \<Rightarrow> d
      | Some i \<Rightarrow> d\<lparr>timers := filter (\<lambda>p. fst p \<noteq> i) (timers d)\<rparr>)"

definition debouncedUpdate :: "designer \<Rightarrow> designer" where
  "debouncedUpdate d =
     (let d1 = clearTimeout d (timeout d);
          r = setTimeout d1 DEBOUNCE_TIME
      in (snd r)\<lparr>timeout := Some (fst r)\<rparr>)"

text \<open>
  The event loop on a virtual clock: when the clock is advanced to \<open>t\<close>, the timers
  due by then fire in the order of their deadlines, each at its deadline, and the
  time of each firing is logged in \<open>fired\<close>. A timer runs \<open>updateMugTexture\<close>, which
  registers no timer.
\<close>

definition fire :: "designer \<Rightarrow> nat \<times> nat \<Rightarrow> designer" where
  "fire d p =
     (if p \<in> set (timers d)
      then updateMugTexture
             (d\<lparr>timers := filter (\<lambda>q. fst q \<noteq> fst p) (timers d),
                now := max (now d) (snd p),
                fired := fired d @ [max (now d) (snd p)]\<rparr>)
      else d)"

definition advance :: "nat \<Rightarrow> designer \<Rightarrow> designer" where
  "advance t d =
     (let d1 = foldl fire d (sort_key snd (filter (\<lambda>p. snd p \<le> t) (timers d)))
      in d1\<lparr>now := max (now d1) t\<rparr>)"

text \<open>A burst of calls of \<open>debouncedUpdate\<close> at the given times.\<close>

definition burst :: "designer \<Rightarrow> nat list \<Rightarrow> designer" where
  "burst d ts = foldl (\<lambda>d t. debouncedUpdate (advance t d)) d ts"

fun gapsBelow :: "nat \<Rightarrow> nat list \<Rightarrow> bool" where
  "gapsBelow w (a # b # ts) = (a \<le> b \<and> b - a < w \<and> gapsBelow w (b # ts))"
| "gapsBelow w ts = True"

subsection \<open>Adding and removing objects\<close>

text \<open>
  The handlers of \<open>object:added\<close> and \<open>object:removed\<close>, registered in
  \<open>setupEventListeners\<close>, and \<open>canvas.add\<close> and \<open>canvas.remove\<close> with them.
\<close>

definition onObjectAdded :: "designer \<Rightarrow> designer" where
  "onObjectAdded d = debouncedUpdate (saveHistory d)"

definition onObjectRemoved :: "designer \<Rightarrow> designer" where
  "onObjectRemoved d = debouncedUpdate (saveHistory (renderAll d))"

definition canvasAdd :: "designer \<Rightarrow> slot \<Rightarrow> designer" where
  "canvasAdd d c = onObjectAdded (d\<lparr>objects := objects d @ [c]\<rparr>)"

definition canvasRemove :: "designer \<Rightarrow> slot \<Rightarrow> designer" where
  "canvasRemove d c =
     (if c \<in> set (objects d) then onObjectRemoved (d\<lparr>objects := remove1 c (objects d)\<rparr>)
      else d)"

text \<open>A sequence of mutations of the canvas, each committed by \<open>saveHistory\<close>.\<close>

definition commits :: "designer \<Rightarrow> slot list list \<Rightarrow> designer" where
  "commits d cs = foldl (\<lambda>d objs. saveHistory (d\<lparr>objects := objs\<rparr>)) d cs"

subsection \<open>Images\<close>

text \<open>A loaded image: where it came from and its natural size.\<close>

record upload =
  u_isImage :: bool
  u_src :: string
  u_width :: real
  u_height :: real

text \<open>The image \<open>handleImageUpload\<close> puts on the canvas.\<close>

definition uploadedImage :: "designer \<Rightarrow> upload \<Rightarrow> bool \<Rightarrow> fobj" where
  "uploadedImage d file grayscaleChecked =
     (let scale = min (3 / 10) (min ((canvasWidth d - 40) / u_width file)
                                    ((canvasHeight d - 40) / u_height file));
          marginLeft = 60; marginRight = 60; marginTop = 10; marginBottom = 10;
          safeW = canvasWidth d - (marginLeft + marginRight);
          safeH = canvasHeight d - (marginTop + marginBottom);
          img = (newObject Image)\<lparr>width := u_width file, height := u_height file,
                  content := u_src file, left := canvasWidth d / 2,
                  top' := canvasHeight d / 2, originX := OriginCenter,
                  originY := OriginCenter, scaleX := scale, scaleY := scale\<rparr>;
          clipRect = \<lparr>left = marginLeft, top' = marginTop, width = safeW, height = safeH\<rparr>;
          img1 = img\<lparr>clipPath := Some clipRect\<rparr>
      in if grayscaleChecked then img1\<lparr>grayscale := True\<rparr> else img1)"

definition handleImageUpload :: "designer \<Rightarrow> upload option \<Rightarrow> bool \<Rightarrow> designer" where
  "handleImageUpload d file grayscaleChecked =
     (case file of
        None \<Rightarrow> d
      | Some f \<Rightarrow>
          if u_isImage f
          then (let img = uploadedImage d f grayscaleChecked;
                    d1 = canvasAdd d (Design img);
                    d2 = snd (checkBounds d1 (Some img));
                    d3 = renderAll d2;
                    d4 = saveHistory d3
                in debouncedUpdate d4)
          else d)"

text \<open>The image \<open>addPatternImage\<close> puts on the canvas, and \<open>addPatternImage\<close>.\<close>

definition patternOf :: "designer \<Rightarrow> upload \<Rightarrow> fobj" where
  "patternOf d fImg =
     (let marginTop = 3; marginBottom = 5; marginLeft = 60; marginRight = 60;
          safeW = canvasWidth d - (marginLeft + marginRight);
          safeH = canvasHeight d - (marginTop + marginBottom);
          scale = max (safeW / u_width fImg) (safeH / u_height fImg);
          img = (newObject Image)\<lparr>width := u_width fImg, height := u_height fImg,
                  content := u_src fImg, scaleX := scale, scaleY := scale,
                  left := canvasWidth d / 2, top' := canvasHeight d / 2,
                  originX := OriginCenter, originY := OriginCenter,
                  selectable := False, evented := False, hasControls := False,
                  lockScalingX := True, lockScalingY := True, lockRotation := True\<rparr>;
          clipRect = \<lparr>left = marginLeft, top' = marginTop, width = safeW, height = safeH\<rparr>
      in img\<lparr>patternImage := True, clipPath := Some clipRect\<rparr>)"

definition removePatterns :: "designer \<Rightarrow> designer" where
  "removePatterns d =
     foldl (\<lambda>d c. if patternImage (deref d c) then canvasRemove d c else d) d (objects d)"

definition addPatternImage :: "designer \<Rightarrow> upload \<Rightarrow> designer" where
  "addPatternImage d fImg =
     (let d1 = removePatterns d;
          d2 = canvasAdd d1 (Design (patternOf d fImg));
          d3 = sendToBack d2 (Design (patternOf d fImg));
          d4 = renderAll d3
      in debouncedUpdate d4)"

section \<open>Auxiliary definitions\<close>

text \<open>
  Closed forms of what \<open>checkBounds\<close> does to one axis of a text object: the new scale,
  the new extent, and the clamping of a coordinate by two tests in a row.
\<close>

definition fitScale :: "real \<Rightarrow> real \<Rightarrow> real \<Rightarrow> real" where
  "fitScale m w s = (if w * s > m then m / w else s)"

definition fitSize :: "real \<Rightarrow> real \<Rightarrow> real \<Rightarrow> real" where
  "fitSize m w s = (if w * s > m then m else w * s)"

definition clampPos :: "real \<Rightarrow> real \<Rightarrow> real \<Rightarrow> real" where
  "clampPos lo hi x = (let x1 = (if x < lo then lo else x) in if x1 > hi then hi else x1)"

text \<open>
  The designer after \<open>setupFabric\<close>, in a window 1600 pixels wide, and objects to run
  the program on: texts as the text dialog makes them (origin at the centre, stroke
  width 0 without outline), two of them turned by a quarter with the rotation
  handle; an image near the centre of the canvas; an uploaded photo and two pattern
  images.
\<close>

definition initialDesigner :: designer where
  "initialDesigner = setupFabric (blank 1600 16)"

definition plainText :: fobj where
  "plainText = (newObject IText)\<lparr>left := 307, top' := 115, width := 600, height := 50,
     originX := OriginCenter, originY := OriginCenter, strokeWidth := 0,
     content := ''Sample Text''\<rparr>"

definition smallText :: fobj where
  "smallText = (newObject IText)\<lparr>left := 307, top' := 115, width := 200, height := 40,
     originX := OriginCenter, originY := OriginCenter, strokeWidth := 0,
     content := ''Sample Text''\<rparr>"

definition rotatedText :: fobj where
  "rotatedText = (newObject IText)\<lparr>left := 307, top' := 115, width := 400, height := 40,
     originX := OriginCenter, originY := OriginCenter, angle := 90, strokeWidth := 0,
     content := ''Hello wonderful world''\<rparr>"


definition nearCentre :: fobj where
  "nearCentre = (newObject Image)\<lparr>left := 310, top' := 118, width := 100, height := 100,
     originX := OriginCenter, originY := OriginCenter\<rparr>"

definition offCentre :: fobj where
  "offCentre = nearCentre\<lparr>top' := 60\<rparr>"

definition photo :: upload where
  "photo = \<lparr>u_isImage = True, u_src = ''photo.png'', u_width = 1000, u_height = 800\<rparr>"

definition dots :: upload where
  "dots = \<lparr>u_isImage = True, u_src = ''images/dots.png'', u_width = 1000, u_height = 1000\<rparr>"

definition stripes :: upload where
  "stripes = \<lparr>u_isImage = True, u_src = ''images/stripes.png'', u_width = 800, u_height = 400\<rparr>"

text \<open>Appending to a history of at most 50 snapshots, as \<open>saveHistory\<close> does.\<close>

definition push50 :: "'a list \<Rightarrow> 'a \<Rightarrow> 'a list" where
  "push50 h s = (let h' = h @ [s] in if length h' > 50 then tl h' else h')"

text \<open>The canvases of 51 additions of a text, one after the other.\<close>

definition fiftyOneAdds :: "slot list list" where
  "fiftyOneAdds = map (\<lambda>n. replicate n (Design smallText)) [1..<52]"

section \<open>The initial designer\<close>

lemma initial_objects: "objects initialDesigner = [BleedRect, SafeRect, VGuide, HGuide]"
  by (simp add: initialDesigner_def setupFabric_def blank_def addSilently_def sendToBack_def
      Let_def)

lemma initial_size: "canvasWidth initialDesigner = 614 \<and> canvasHeight initialDesigner = 230"
  by (simp add: initialDesigner_def setupFabric_def blank_def addSilently_def sendToBack_def
      Let_def DEFAULT_CANVAS_WIDTH_def DEFAULT_CANVAS_HEIGHT_def)

lemma initial_meshes: "meshes initialDesigner = Map.empty"
  by (simp add: initialDesigner_def setupFabric_def blank_def addSilently_def sendToBack_def
      Let_def)

lemma initial_clock:
  "timers initialDesigner = [] \<and> now initialDesigner = 0 \<and> fired initialDesigner = [] \<and>
   history initialDesigner = []"
  by (simp add: initialDesigner_def setupFabric_def blank_def addSilently_def sendToBack_def
      Let_def)

lemma initial_export:
  "excludeFromExport (safeRect initialDesigner) \<and>
   excludeFromExport (bleedRect initialDesigner) \<and>
   excludeFromExport (vGuide initialDesigner) \<and> excludeFromExport (hGuide initialDesigner)"
  by (simp add: initialDesigner_def setupFabric_def blank_def addSilently_def sendToBack_def
      Let_def newSafeRect_def newBleedRect_def newLine_def overlay_def newObject_def)

lemma initial_flags:
  "\<not> patternImage (safeRect initialDesigner) \<and> \<not> patternImage (bleedRect initialDesigner) \<and>
   \<not> patternImage (vGuide initialDesigner) \<and> \<not> patternImage (hGuide initialDesigner)"
  by (simp add: initialDesigner_def setupFabric_def blank_def addSilently_def sendToBack_def
      Let_def newSafeRect_def newBleedRect_def newLine_def overlay_def newObject_def)

text \<open>
  The rectangle \<open>checkBounds\<close> reads for the safe zone is the bounding rectangle of
  \<open>safeRect\<close>: the margins' rectangle, grown by the stroke of 0.4.
\<close>

lemma initial_safe:
  "getBoundingRect (safeRect initialDesigner) =
     \<lparr>left = 60, top' = 3, width = 494 + 4 / 10, height = 222 + 4 / 10\<rparr>"
  by (simp add: initialDesigner_def setupFabric_def blank_def addSilently_def sendToBack_def
      Let_def newSafeRect_def overlay_def newObject_def getBoundingRect_def getCenterPoint_def
      originOffset_def dimX_def dimY_def degreesToRadians_def DEFAULT_CANVAS_WIDTH_def
      DEFAULT_CANVAS_HEIGHT_def)

text \<open>The safe zone itself is the rectangle of the margins 60, 60, 3 and 5.\<close>

lemma initial_zone:
  "rect.truncate (safeRect initialDesigner) = \<lparr>left = 60, top' = 3, width = 494, height = 222\<rparr>"
  by (simp add: initialDesigner_def setupFabric_def blank_def addSilently_def sendToBack_def
      Let_def newSafeRect_def overlay_def newObject_def rect.truncate_def
      DEFAULT_CANVAS_WIDTH_def DEFAULT_CANVAS_HEIGHT_def)

section \<open>Bounds checking\<close>

lemma if_upd_left:
  "(if c then ob\<lparr>left := a\<rparr> else ob) = ob\<lparr>left := (if c then a else left ob)\<rparr>"
  for ob :: fobj
  by simp

lemma if_upd_top:
  "(if c then ob\<lparr>top' := a\<rparr> else ob) = ob\<lparr>top' := (if c then a else top' ob)\<rparr>"
  for ob :: fobj
  by simp

lemma if_upd_scaleX:
  "(if c then ob\<lparr>scaleX := a\<rparr> else ob) = ob\<lparr>scaleX := (if c then a else scaleX ob)\<rparr>"
  for ob :: fobj
  by simp

lemma if_upd_scaleY:
  "(if c then ob\<lparr>scaleY := a\<rparr> else ob) = ob\<lparr>scaleY := (if c then a else scaleY ob)\<rparr>"
  for ob :: fobj
  by simp

lemma clampText_closed:
  "clampText safe ob =
     ob\<lparr>left := clampPos (left safe + fitSize (width safe) (width ob) (scaleX ob) / 2)
                (left safe + width safe - fitSize (width safe) (width ob) (scaleX ob) / 2)
                (left ob),
        top' := clampPos (top' safe + fitSize (height safe) (height ob) (scaleY ob) / 2)
                (top' safe + height safe - fitSize (height safe) (height ob) (scaleY ob) / 2)
                (top' ob),
        scaleX := fitScale (width safe) (width ob) (scaleX ob),
        scaleY := fitScale (height safe) (height ob) (scaleY ob)\<rparr>"
  unfolding clampText_def Let_def if_upd_left if_upd_top if_upd_scaleX if_upd_scaleY
    fitScale_def fitSize_def clampPos_def
  by (simp split del: if_split cong: if_cong)







lemma checkBounds_objects: "objects (snd (checkBounds d t)) = objects d"
  by (simp add: checkBounds_def Let_def split: option.split)

lemma checkBounds_fst:
  "fst (checkBounds d (Some ob)) =
     Some (if otype ob = IText then clampText (getBoundingRect (safeRect d)) ob else ob)"
  by (simp add: checkBounds_def Let_def)

text \<open>
  A bounding rectangle has no negative extent, so \<open>checkBounds\<close> rescales an axis only
  when the object's natural size on it is not 0, and never divides by 0.
\<close>

lemma boundingRect_nonneg: "0 \<le> width (getBoundingRect ob) \<and> 0 \<le> height (getBoundingRect ob)"
  by (simp add: getBoundingRect_def Let_def)

text \<open>
  The text of natural size 600 by 50 at the centre of the 614 by 230 canvas, not
  rotated and without outline, and the text of natural size 400 by 40 there, turned
  by 90 degrees.
\<close>

lemma plain_result:
  "fst (checkBounds initialDesigner (Some plainText)) =
     Some (plainText\<lparr>left := 1536 / 5, scaleX := 103 / 125\<rparr>)"
  apply (simp add: checkBounds_fst initial_safe)
  apply (simp add: clampText_closed fitSize_def fitScale_def clampPos_def plainText_def
      newObject_def)
  done

lemma plain_box:
  "getBoundingRect (plainText\<lparr>left := 1536 / 5, scaleX := 103 / 125\<rparr>) =
     \<lparr>left = 60, top' = 90, width = 2472 / 5, height = 50\<rparr>"
  by (simp add: plainText_def newObject_def getBoundingRect_def getCenterPoint_def
      originOffset_def dimX_def dimY_def degreesToRadians_def Let_def)

lemma rotated_result: "fst (checkBounds initialDesigner (Some rotatedText)) = Some rotatedText"
  apply (simp add: checkBounds_fst initial_safe)
  apply (simp add: clampText_closed fitSize_def fitScale_def clampPos_def rotatedText_def
      newObject_def)
  done

lemma rotated_box:
  "getBoundingRect rotatedText = \<lparr>left = 287, top' = - 85, width = 40, height = 400\<rparr>"
  by (simp add: rotatedText_def newObject_def getBoundingRect_def getCenterPoint_def
      originOffset_def dimX_def dimY_def degreesToRadians_def Let_def)

text \<open>
  C1 at two text objects. \<open>checkBounds\<close> reads the safe rectangle with
  \<open>getBoundingRect\<close>, which includes the stroke of 0.4: the text of 600 by 50 is scaled
  to the width 494.4 and its bounding rectangle reaches from 60 to 554.4, past the
  right edge of the safe zone at 554. And \<open>checkBounds\<close> clamps the extent
  \<open>width * scaleX\<close> by \<open>height * scaleY\<close> about \<open>(left, top)\<close> without reading the angle:
  the text turned by 90 degrees is returned as it is, and its bounding rectangle, 40
  wide and 400 high, reaches from 85 above the canvas to 85 below it.
\<close>

theorem checkBounds_leaves_safe_zone:
  "rect.truncate (safeRect initialDesigner) = \<lparr>left = 60, top' = 3, width = 494, height = 222\<rparr> \<and>
   fst (checkBounds initialDesigner (Some plainText)) =
     Some (plainText\<lparr>left := 1536 / 5, scaleX := 103 / 125\<rparr>) \<and>
   getBoundingRect (plainText\<lparr>left := 1536 / 5, scaleX := 103 / 125\<rparr>) =
     \<lparr>left = 60, top' = 90, width = 2472 / 5, height = 50\<rparr> \<and>
   \<not> rectWithin (getBoundingRect (plainText\<lparr>left := 1536 / 5, scaleX := 103 / 125\<rparr>))
       (rect.truncate (safeRect initialDesigner)) \<and>
   fst (checkBounds initialDesigner (Some rotatedText)) = Some rotatedText \<and>
   getBoundingRect rotatedText = \<lparr>left = 287, top' = - 85, width = 40, height = 400\<rparr> \<and>
   \<not> rectWithin (getBoundingRect rotatedText) (rect.truncate (safeRect initialDesigner))"
  by (simp add: initial_zone plain_result plain_box rotated_result rotated_box rectWithin_def)







section \<open>Snapping\<close>

text \<open>
  C3 at an object whose centre is 3 pixels from the centre of the canvas on both axes.
  The first test moves it to \<open>x = 307\<close>; the second test repositions it at the \<open>x\<close> read
  before, 310, so that after \<open>snapToCenter\<close> its centre is at \<open>(310, 115)\<close>.
\<close>

theorem snapToCenter_undoes_x_snap:
  "getCenterPoint nearCentre = (310, 118) \<and>
   canvasWidth initialDesigner / 2 = 307 \<and> canvasHeight initialDesigner / 2 = 115 \<and>
   \<bar>fst (getCenterPoint nearCentre) - canvasWidth initialDesigner / 2\<bar> < 10 \<and>
   \<bar>snd (getCenterPoint nearCentre) - canvasHeight initialDesigner / 2\<bar> < 10 \<and>
   getCenterPoint (fst (snapToCenter initialDesigner nearCentre 10)) = (310, 115)"
  by (simp add: snapToCenter_def Let_def initial_size getCenterPoint_def originOffset_def
      setPositionByOrigin_def nearCentre_def newObject_def)

text \<open>
  An object near the centre on one axis only is moved onto the centre on that axis,
  and that axis' guide alone is shown.
\<close>

lemma snapToCenter_one_axis:
  "getCenterPoint (fst (snapToCenter initialDesigner offCentre 10)) = (307, 60) \<and>
   visible (vGuide (snd (snapToCenter initialDesigner offCentre 10))) \<and>
   \<not> visible (hGuide (snd (snapToCenter initialDesigner offCentre 10)))"
  by (simp add: snapToCenter_def Let_def initial_size getCenterPoint_def originOffset_def
      setPositionByOrigin_def nearCentre_def offCentre_def newObject_def renderAll_def)

section \<open>The texture bake without an outer mesh\<close>

text \<open>
  C10. When the mesh lookup has no entry \<open>Object_4\<close>, \<open>updateMugTexture\<close> returns the
  designer as it was: no visibility is changed, nothing is rendered or rasterised,
  and no texture is bound or disposed of.
\<close>

theorem updateMugTexture_without_outer_mesh:
  "meshes d ''Object_4'' = None \<Longrightarrow> updateMugTexture d = d"
  by (simp add: updateMugTexture_def)

theorem updateMugTexture_without_outer_mesh_witness:
  "meshes initialDesigner ''Object_4'' = None \<and> updateMugTexture initialDesigner = initialDesigner"
  using updateMugTexture_without_outer_mesh [of initialDesigner] by (simp add: initial_meshes)

section \<open>What the handlers leave alone\<close>

lemma saveHistory_objects: "objects (saveHistory d) = objects d"
  by (simp add: saveHistory_def Let_def)

lemma debouncedUpdate_objects: "objects (debouncedUpdate d) = objects d"
  by (simp add: debouncedUpdate_def setTimeout_def clearTimeout_def Let_def split: option.split)

lemma renderAll_objects: "objects (renderAll d) = objects d"
  by (simp add: renderAll_def)

lemma canvasAdd_objects: "objects (canvasAdd d c) = objects d @ [c]"
  by (simp add: canvasAdd_def onObjectAdded_def saveHistory_objects debouncedUpdate_objects)

lemma canvasRemove_objects: "objects (canvasRemove d c) = remove1 c (objects d)"
  by (simp add: canvasRemove_def onObjectRemoved_def saveHistory_objects debouncedUpdate_objects
      renderAll_objects remove1_idem)

lemma deref_saveHistory: "deref (saveHistory d) = deref d"
  by (rule ext) (simp add: deref_def saveHistory_def Let_def split: slot.split)

lemma deref_debouncedUpdate: "deref (debouncedUpdate d) = deref d"
  by (rule ext) (simp add: deref_def debouncedUpdate_def setTimeout_def clearTimeout_def Let_def
      split: slot.split option.split)

lemma deref_objects_update: "deref (d\<lparr>objects := xs\<rparr>) = deref d"
  by (rule ext) (simp add: deref_def split: slot.split)

lemma deref_renderAll: "deref (renderAll d) = deref d"
  by (rule ext) (simp add: deref_def renderAll_def split: slot.split)

lemma deref_canvasRemove: "deref (canvasRemove d c) = deref d"
  by (simp add: canvasRemove_def onObjectRemoved_def deref_debouncedUpdate deref_saveHistory
      deref_renderAll deref_objects_update)

lemma deref_canvasAdd: "deref (canvasAdd d c) = deref d"
  by (simp add: canvasAdd_def onObjectAdded_def deref_debouncedUpdate deref_saveHistory
      deref_objects_update)

lemma canvasSize_saveHistory:
  "canvasWidth (saveHistory d) = canvasWidth d \<and> canvasHeight (saveHistory d) = canvasHeight d"
  by (simp add: saveHistory_def Let_def)

lemma canvasSize_debouncedUpdate:
  "canvasWidth (debouncedUpdate d) = canvasWidth d \<and>
   canvasHeight (debouncedUpdate d) = canvasHeight d"
  by (simp add: debouncedUpdate_def setTimeout_def clearTimeout_def Let_def split: option.split)

lemma canvasSize_canvasRemove:
  "canvasWidth (canvasRemove d c) = canvasWidth d \<and>
   canvasHeight (canvasRemove d c) = canvasHeight d"
  by (simp add: canvasRemove_def onObjectRemoved_def canvasSize_debouncedUpdate
      canvasSize_saveHistory renderAll_def)

lemma canvasSize_canvasAdd:
  "canvasWidth (canvasAdd d c) = canvasWidth d \<and> canvasHeight (canvasAdd d c) = canvasHeight d"
  by (simp add: canvasAdd_def onObjectAdded_def canvasSize_debouncedUpdate canvasSize_saveHistory)

section \<open>Uploaded images\<close>

lemma handleImageUpload_objects:
  "u_isImage f \<Longrightarrow>
   objects (handleImageUpload d (Some f) g) = objects d @ [Design (uploadedImage d f g)]"
  by (simp add: handleImageUpload_def Let_def debouncedUpdate_objects saveHistory_objects
      renderAll_def checkBounds_objects canvasAdd_objects)

text \<open>
  C8 at a photo of 1000 by 800 pixels on the initial canvas. The image put on the
  canvas has the scale \<open>min(0.3, 574/1000, 190/800) = 19/80\<close>; its clip rectangle is
  made from the margins 60, 60, 10, 10 and is \<open>(60, 10, 494, 210)\<close>, while the safe
  rectangle, made from the margins 60, 60, 3, 5, is \<open>(60, 3, 494, 222)\<close>, and so is the
  clip rectangle \<open>addPatternImage\<close> gives a pattern.
\<close>

theorem handleImageUpload_clip_differs:
  "objects (handleImageUpload initialDesigner (Some photo) False) =
     [BleedRect, SafeRect, VGuide, HGuide, Design (uploadedImage initialDesigner photo False)] \<and>
   scaleX (uploadedImage initialDesigner photo False) = 19 / 80 \<and>
   scaleY (uploadedImage initialDesigner photo False) = 19 / 80 \<and>
   clipPath (uploadedImage initialDesigner photo False) =
     Some \<lparr>left = 60, top' = 10, width = 494, height = 210\<rparr> \<and>
   rect.truncate (safeRect initialDesigner) = \<lparr>left = 60, top' = 3, width = 494, height = 222\<rparr> \<and>
   clipPath (patternOf initialDesigner dots) =
     Some \<lparr>left = 60, top' = 3, width = 494, height = 222\<rparr>"
  apply (simp add: handleImageUpload_objects photo_def initial_objects)
  apply (simp add: uploadedImage_def patternOf_def Let_def initial_size newObject_def)
  apply (simp add: initialDesigner_def setupFabric_def blank_def addSilently_def sendToBack_def
      Let_def newSafeRect_def overlay_def newObject_def rect.truncate_def
      DEFAULT_CANVAS_WIDTH_def DEFAULT_CANVAS_HEIGHT_def)
  done

section \<open>Pattern images\<close>

lemma removeLoop_deref:
  "deref (foldl (\<lambda>d c. if patternImage (deref d c) then canvasRemove d c else d) d cs) = deref d"
  by (induction cs arbitrary: d) (simp_all add: deref_canvasRemove)

lemma removeLoop_objects:
  "objects (foldl (\<lambda>d c. if patternImage (deref d c) then canvasRemove d c else d) d cs) =
   foldl (\<lambda>xs c. if patternImage (deref d c) then remove1 c xs else xs) (objects d) cs"
proof (induction cs arbitrary: d)
  case Nil
  show ?case by simp
next
  case (Cons c cs)
  show ?case
    by (simp add: Cons.IH deref_canvasRemove canvasRemove_objects)
qed

lemma canvasSize_removeLoop:
  "canvasWidth (foldl (\<lambda>d c. if patternImage (deref d c) then canvasRemove d c else d) d cs)
     = canvasWidth d \<and>
   canvasHeight (foldl (\<lambda>d c. if patternImage (deref d c) then canvasRemove d c else d) d cs)
     = canvasHeight d"
  by (induction cs arbitrary: d) (simp_all add: canvasSize_canvasRemove)

text \<open>
  Removing, one after the other, every flagged element of a copy of the list leaves
  the elements that are not flagged, in their order.
\<close>

lemma remove_flagged:
  "\<forall>y \<in> set ys. \<not> P y \<Longrightarrow>
   foldl (\<lambda>xs c. if P c then remove1 c xs else xs) (ys @ xs) xs = ys @ filter (\<lambda>c. \<not> P c) xs"
proof (induction xs arbitrary: ys)
  case Nil
  show ?case by simp
next
  case (Cons x xs)
  show ?case
  proof (cases "P x")
    case True
    with Cons.prems have "x \<notin> set ys" by blast
    then have "remove1 x (ys @ x # xs) = ys @ xs" by (simp add: remove1_append)
    with True Cons.IH [OF Cons.prems] show ?thesis by simp
  next
    case False
    with Cons.prems have "\<forall>y \<in> set (ys @ [x]). \<not> P y" by simp
    from Cons.IH [OF this] False show ?thesis by simp
  qed
qed

lemma removePatterns_objects:
  "objects (removePatterns d) = filter (\<lambda>c. \<not> patternImage (deref d c)) (objects d)"
  using remove_flagged [of "[]" "\<lambda>c. patternImage (deref d c)" "objects d"]
  by (simp add: removePatterns_def removeLoop_objects)

lemma removePatterns_deref: "deref (removePatterns d) = deref d"
  by (simp add: removePatterns_def removeLoop_deref)

lemma patternOf_flag: "patternImage (patternOf d f)"
  by (simp add: patternOf_def Let_def)

lemma patternOf_cong:
  "canvasWidth d' = canvasWidth d \<Longrightarrow> canvasHeight d' = canvasHeight d \<Longrightarrow>
   patternOf d' f = patternOf d f"
  by (simp add: patternOf_def)

lemma addPatternImage_objects:
  "objects (addPatternImage d f) =
     Design (patternOf d f) # filter (\<lambda>c. \<not> patternImage (deref d c)) (objects d)"
proof -
  let ?p = "Design (patternOf d f)"
  let ?rest = "filter (\<lambda>c. \<not> patternImage (deref d c)) (objects d)"
  have "patternImage (deref d ?p)" by (simp add: deref_def patternOf_flag)
  then have "?p \<notin> set ?rest" by simp
  then have "remove1 ?p (?rest @ [?p]) = ?rest @ remove1 ?p [?p]"
    by (simp only: remove1_append if_False)
  then have r: "remove1 ?p (?rest @ [?p]) = ?rest" by simp
  have "objects (addPatternImage d f) = ?p # remove1 ?p (?rest @ [?p])"
    by (simp add: addPatternImage_def Let_def debouncedUpdate_objects renderAll_objects
        sendToBack_def canvasAdd_objects removePatterns_objects del: remove1_append)
  then show ?thesis by (simp only: r)
qed

lemma addPatternImage_deref: "deref (addPatternImage d f) = deref d"
  by (simp add: addPatternImage_def Let_def deref_debouncedUpdate deref_renderAll sendToBack_def
      deref_objects_update deref_canvasAdd removePatterns_deref)

lemma canvasSize_addPatternImage:
  "canvasWidth (addPatternImage d f) = canvasWidth d \<and>
   canvasHeight (addPatternImage d f) = canvasHeight d"
  by (simp add: addPatternImage_def Let_def canvasSize_debouncedUpdate renderAll_def
      sendToBack_def canvasSize_canvasAdd removePatterns_def canvasSize_removeLoop)

lemma canvasSize_insertions:
  "canvasWidth (foldl addPatternImage d fs) = canvasWidth d \<and>
   canvasHeight (foldl addPatternImage d fs) = canvasHeight d"
  by (induction fs arbitrary: d) (simp_all add: canvasSize_addPatternImage)

lemma flagged_after_insertion:
  "filter (\<lambda>c. patternImage (deref (addPatternImage d f) c)) (objects (addPatternImage d f)) =
     [Design (patternOf d f)]"
  by (simp add: addPatternImage_deref addPatternImage_objects deref_def patternOf_flag)

text \<open>
  C2. After any sequence of one or more pattern insertions, from any state of the
  canvas, the objects on the canvas that carry the pattern flag are exactly one: the
  image of the last insertion.
\<close>

theorem pattern_exclusive:
  assumes "fs \<noteq> []"
  shows "filter (\<lambda>c. patternImage (deref (foldl addPatternImage d fs) c))
           (objects (foldl addPatternImage d fs)) = [Design (patternOf d (last fs))]"
proof -
  from assms obtain gs g where fs: "fs = gs @ [g]"
    by (cases fs rule: rev_cases) auto
  let ?d = "foldl addPatternImage d gs"
  have "patternOf ?d g = patternOf d g"
    using canvasSize_insertions [of d gs] by (intro patternOf_cong) simp_all
  then show ?thesis
    using flagged_after_insertion [of ?d g] by (simp add: fs)
qed

theorem pattern_exclusive_witness:
  "[dots, stripes] \<noteq> [] \<and>
   filter (\<lambda>c. patternImage (deref (foldl addPatternImage initialDesigner [dots, stripes]) c))
     (objects (foldl addPatternImage initialDesigner [dots, stripes]))
     = [Design (patternOf initialDesigner stripes)]"
  using pattern_exclusive [of "[dots, stripes]" initialDesigner] by simp

text \<open>
  C9, as the code has it. \<open>addPatternImage\<close> ends with \<open>sendToBack\<close>, so the pattern is
  the first object of the canvas: below every design object, and below the safe and
  the bleed rectangle and the guides as well; the other objects keep their order.
\<close>

theorem pattern_at_bottom:
  "objects (addPatternImage d f) =
     Design (patternOf d f) # filter (\<lambda>c. \<not> patternImage (deref d c)) (objects d)"
  by (rule addPatternImage_objects)

text \<open>On the initial canvas the pattern comes to lie under the bleed and the safe rectangle.\<close>

theorem pattern_below_zones_counterexample:
  "objects (addPatternImage initialDesigner dots) =
     [Design (patternOf initialDesigner dots), BleedRect, SafeRect, VGuide, HGuide]"
  by (simp add: addPatternImage_objects initial_objects deref_def initial_flags)

section \<open>The history\<close>

lemma saveHistory_history: "history (saveHistory d) = push50 (history d) (toJSON d)"
  by (simp add: saveHistory_def push50_def Let_def)

lemma toJSON_cong: "deref d' = deref d \<Longrightarrow> objects d' = objects d \<Longrightarrow> toJSON d' = toJSON d"
  by (simp add: toJSON_def exported_def)

lemma push50_length: "length h \<le> 50 \<Longrightarrow> length (push50 h s) \<le> 50"
  by (simp add: push50_def Let_def)

lemma foldl_push50:
  "length h \<le> 50 \<Longrightarrow> foldl push50 h ss = drop (length (h @ ss) - 50) (h @ ss)"
proof (induction ss arbitrary: h)
  case Nil
  then show ?case by simp
next
  case (Cons s ss)
  have l: "length (push50 h s) \<le> 50" using Cons.prems by (rule push50_length)
  have "foldl push50 h (s # ss) = foldl push50 (push50 h s) ss" by simp
  also have "\<dots> = drop (length (push50 h s @ ss) - 50) (push50 h s @ ss)"
    using Cons.IH [OF l] .
  also have "\<dots> = drop (length (h @ s # ss) - 50) (h @ s # ss)"
  proof (cases "length h < 50")
    case True
    then have "push50 h s = h @ [s]" by (simp add: push50_def Let_def)
    then show ?thesis by simp
  next
    case False
    with Cons.prems have len: "length h = 50" by simp
    then obtain x xs where h: "h = x # xs" by (cases h) auto
    with len have p: "push50 h s = xs @ [s]" by (simp add: push50_def Let_def)
    from len h have lx: "length xs = 49" by simp
    have a: "length (push50 h s @ ss) - 50 = length ss" by (simp add: p lx)
    have b: "length (h @ s # ss) - 50 = Suc (length ss)" by (simp add: h lx)
    have "drop (length ss) (push50 h s @ ss) = drop (Suc (length ss)) (h @ s # ss)"
      using p by (simp add: h)
    then show ?thesis unfolding a b .
  qed
  finally show ?case .
qed

lemma commits_history:
  "history (commits d cs) =
     foldl push50 (history d) (map (\<lambda>objs. toJSON (d\<lparr>objects := objs\<rparr>)) cs)"
  unfolding commits_def
proof (induction cs arbitrary: d)
  case Nil
  show ?case by simp
next
  case (Cons c cs)
  let ?d = "saveHistory (d\<lparr>objects := c\<rparr>)"
  have "\<And>objs. toJSON (?d\<lparr>objects := objs\<rparr>) = toJSON (d\<lparr>objects := objs\<rparr>)"
    by (rule toJSON_cong) (simp_all add: deref_objects_update deref_saveHistory)
  then show ?case
    by (simp add: Cons.IH saveHistory_history)
qed

text \<open>
  C4. Starting from an empty history, after more than 50 mutations of the canvas, each
  committed by \<open>saveHistory\<close>, the history has exactly 50 entries: the snapshots of the
  last 50 canvases, in their order.
\<close>

theorem history_bound:
  assumes "history d = []" "length cs > 50"
  shows "length (history (commits d cs)) = 50 \<and>
         history (commits d cs) =
           map (\<lambda>objs. toJSON (d\<lparr>objects := objs\<rparr>)) (drop (length cs - 50) cs)"
  using assms by (simp add: commits_history foldl_push50 drop_map)

text \<open>After 51 additions the history holds the snapshots of the canvases 2 to 51.\<close>

theorem history_bound_witness:
  "history initialDesigner = [] \<and> length fiftyOneAdds > 50 \<and>
   length (history (commits initialDesigner fiftyOneAdds)) = 50 \<and>
   history (commits initialDesigner fiftyOneAdds) =
     map (\<lambda>objs. toJSON (initialDesigner\<lparr>objects := objs\<rparr>)) (drop 1 fiftyOneAdds)"
  using history_bound [of initialDesigner fiftyOneAdds]
  by (simp add: initial_clock fiftyOneAdds_def)

section \<open>Snapshots and their restoration\<close>

lemma dots_flag:
  "patternImage (patternOf initialDesigner dots) \<and>
   \<not> excludeFromExport (patternOf initialDesigner dots)"
  by (simp add: patternOf_def Let_def newObject_def)

lemma restored_flags:
  "\<not> patternImage (fromObject (toObject ob)) \<and> \<not> excludeFromExport (fromObject (toObject ob))"
  by (simp add: fromObject_def newObject_def)

lemma loadFromJSON_frame:
  "deref (loadFromJSON d snap) = deref d \<and> canvasWidth (loadFromJSON d snap) = canvasWidth d \<and>
   canvasHeight (loadFromJSON d snap) = canvasHeight d \<and>
   objects (loadFromJSON d snap) = restore snap"
  by (simp add: loadFromJSON_def deref_objects_update)

text \<open>
  C5 at the canvas with one pattern image. The snapshot \<open>saveHistory\<close> takes is made by
  \<open>toJSON()\<close> without the property \<open>patternImage\<close>, so the object restored from it does
  not carry the flag the original carries. The program tests that flag afterwards:
  on the restored canvas the next \<open>addPatternImage\<close> does not remove the restored
  pattern, and two pattern images are on the canvas.
\<close>

theorem restore_loses_pattern_flag:
  "exported (addPatternImage initialDesigner dots) = [patternOf initialDesigner dots] \<and>
   patternImage (patternOf initialDesigner dots) \<and>
   restore (toJSON (addPatternImage initialDesigner dots)) =
     [Design (fromObject (toObject (patternOf initialDesigner dots)))] \<and>
   \<not> patternImage (fromObject (toObject (patternOf initialDesigner dots))) \<and>
   objects (addPatternImage
     (loadFromJSON (addPatternImage initialDesigner dots)
        (toJSON (addPatternImage initialDesigner dots))) stripes) =
     [Design (patternOf initialDesigner stripes),
      Design (fromObject (toObject (patternOf initialDesigner dots)))]"
proof -
  let ?p = "patternOf initialDesigner dots"
  let ?d = "addPatternImage initialDesigner dots"
  let ?l = "loadFromJSON ?d (toJSON ?d)"
  have ex: "exported ?d = [?p]"
    by (simp add: exported_def addPatternImage_objects addPatternImage_deref initial_objects
        deref_def initial_flags initial_export dots_flag)
  have re: "restore (toJSON ?d) = [Design (fromObject (toObject ?p))]"
    by (simp add: restore_def toJSON_def ex)
  have "patternOf ?l stripes = patternOf initialDesigner stripes"
    by (intro patternOf_cong) (simp_all add: loadFromJSON_frame canvasSize_addPatternImage)
  then have "objects (addPatternImage ?l stripes) =
      [Design (patternOf initialDesigner stripes), Design (fromObject (toObject ?p))]"
    by (simp add: addPatternImage_objects loadFromJSON_frame re deref_def restored_flags)
  then show ?thesis
    using ex re by (simp add: dots_flag restored_flags)
qed

section \<open>The debounced bake\<close>

lemma setExportVisible_clock:
  "timers (setExportVisible v d) = timers d \<and> now (setExportVisible v d) = now d \<and>
   fired (setExportVisible v d) = fired d \<and> timeout (setExportVisible v d) = timeout d \<and>
   nextTimer (setExportVisible v d) = nextTimer d"
  by (simp add: setExportVisible_def)

lemma renderAll_clock:
  "timers (renderAll d) = timers d \<and> now (renderAll d) = now d \<and>
   fired (renderAll d) = fired d \<and> timeout (renderAll d) = timeout d \<and>
   nextTimer (renderAll d) = nextTimer d"
  by (simp add: renderAll_def)

lemma updateMugTexture_clock:
  "timers (updateMugTexture d) = timers d \<and> now (updateMugTexture d) = now d \<and>
   fired (updateMugTexture d) = fired d \<and> timeout (updateMugTexture d) = timeout d \<and>
   nextTimer (updateMugTexture d) = nextTimer d"
  by (simp add: updateMugTexture_def Let_def renderAll_clock setExportVisible_clock
      split: option.split)

lemma advance_idle:
  "\<forall>p \<in> set (timers d). t < snd p \<Longrightarrow> advance t d = d\<lparr>now := max (now d) t\<rparr>"
proof -
  assume "\<forall>p \<in> set (timers d). t < snd p"
  then have "filter (\<lambda>p. snd p \<le> t) (timers d) = []"
    by (auto simp add: filter_empty_conv)
  then show ?thesis by (simp add: advance_def)
qed

lemma debouncedUpdate_single:
  assumes "timers d = [] \<or> (\<exists>i dl. timers d = [(i, dl)] \<and> timeout d = Some i)"
  shows "timers (debouncedUpdate d) = [(nextTimer d, now d + DEBOUNCE_TIME)] \<and>
         timeout (debouncedUpdate d) = Some (nextTimer d) \<and>
         now (debouncedUpdate d) = now d \<and> fired (debouncedUpdate d) = fired d"
  using assms
  by (auto simp add: debouncedUpdate_def setTimeout_def clearTimeout_def Let_def
      split: option.split)

lemma step_pending:
  assumes "timers d = [(i, dl)]" "timeout d = Some i" "now d \<le> t" "t < dl"
  shows "timers (debouncedUpdate (advance t d)) = [(nextTimer d, t + DEBOUNCE_TIME)] \<and>
         timeout (debouncedUpdate (advance t d)) = Some (nextTimer d) \<and>
         now (debouncedUpdate (advance t d)) = t \<and>
         fired (debouncedUpdate (advance t d)) = fired d"
proof -
  have a: "advance t d = d\<lparr>now := max (now d) t\<rparr>"
    using assms by (intro advance_idle) simp
  have "timers (advance t d) = [] \<or>
      (\<exists>i dl. timers (advance t d) = [(i, dl)] \<and> timeout (advance t d) = Some i)"
    using assms by (simp add: a)
  from debouncedUpdate_single [OF this] assms show ?thesis
    by (simp add: a max_def)
qed

lemma burst_pending:
  assumes "timers d = [(i, a + DEBOUNCE_TIME)]" "timeout d = Some i" "now d = a"
    "gapsBelow DEBOUNCE_TIME (a # ts)"
  shows "\<exists>j. timers (burst d ts) = [(j, last (a # ts) + DEBOUNCE_TIME)] \<and>
           timeout (burst d ts) = Some j \<and> now (burst d ts) = last (a # ts) \<and>
           fired (burst d ts) = fired d"
  using assms
proof (induction ts arbitrary: d i a)
  case Nil
  then show ?case by (simp add: burst_def)
next
  case (Cons t ts)
  let ?d = "debouncedUpdate (advance t d)"
  from Cons.prems(4) have g: "a \<le> t" "t - a < DEBOUNCE_TIME" "gapsBelow DEBOUNCE_TIME (t # ts)"
    by simp_all
  have s: "timers ?d = [(nextTimer d, t + DEBOUNCE_TIME)] \<and> timeout ?d = Some (nextTimer d) \<and>
      now ?d = t \<and> fired ?d = fired d"
  proof (rule step_pending)
    show "timers d = [(i, a + DEBOUNCE_TIME)]" by (rule Cons.prems(1))
    show "timeout d = Some i" by (rule Cons.prems(2))
    show "now d \<le> t" using Cons.prems(3) g(1) by simp
    show "t < a + DEBOUNCE_TIME" using g(1,2) by linarith
  qed
  from s have s1: "timers ?d = [(nextTimer d, t + DEBOUNCE_TIME)]" by simp
  from s have s2: "timeout ?d = Some (nextTimer d)" by simp
  from s have s3: "now ?d = t" by simp
  from Cons.IH [OF s1 s2 s3 g(3)] s show ?case
    by (simp add: burst_def)
qed

lemma burst_nonempty:
  assumes "timers d = []" "now d \<le> a" "gapsBelow DEBOUNCE_TIME (a # ts)"
  shows "\<exists>j. timers (burst d (a # ts)) = [(j, last (a # ts) + DEBOUNCE_TIME)] \<and>
           timeout (burst d (a # ts)) = Some j \<and> now (burst d (a # ts)) = last (a # ts) \<and>
           fired (burst d (a # ts)) = fired d"
proof -
  let ?d = "debouncedUpdate (advance a d)"
  have a: "advance a d = d\<lparr>now := max (now d) a\<rparr>"
    using assms(1) by (intro advance_idle) simp
  have "timers (advance a d) = [] \<or>
      (\<exists>i dl. timers (advance a d) = [(i, dl)] \<and> timeout (advance a d) = Some i)"
    using assms(1) by (simp add: a)
  from debouncedUpdate_single [OF this] assms(2)
  have s: "timers ?d = [(nextTimer d, a + DEBOUNCE_TIME)] \<and> timeout ?d = Some (nextTimer d) \<and>
      now ?d = a \<and> fired ?d = fired d"
    by (simp add: a max_def)
  from s have s1: "timers ?d = [(nextTimer d, a + DEBOUNCE_TIME)]" by simp
  from s have s2: "timeout ?d = Some (nextTimer d)" by simp
  from s have s3: "now ?d = a" by simp
  have b: "burst d (a # ts) = burst ?d ts" by (simp add: burst_def)
  from burst_pending [OF s1 s2 s3 assms(3)] s show ?thesis
    unfolding b by simp
qed

lemma advance_single_due:
  assumes "timers d = [(j, dl)]" "dl \<le> t" "now d \<le> dl"
  shows "fired (advance t d) = fired d @ [dl] \<and> timers (advance t d) = []"
  using assms by (simp add: advance_def fire_def updateMugTexture_clock max_def)

lemma advance_single_early:
  assumes "timers d = [(j, dl)]" "t < dl"
  shows "fired (advance t d) = fired d \<and> timers (advance t d) = [(j, dl)]"
proof -
  have "advance t d = d\<lparr>now := max (now d) t\<rparr>"
    using assms by (intro advance_idle) simp
  with assms show ?thesis by simp
qed

text \<open>
  C6, on the virtual clock. A burst of one or more calls of \<open>debouncedUpdate\<close>, each
  less than \<open>DEBOUNCE_TIME\<close> after the one before, starting with no timer pending:
  during the burst no timer fires and at its end exactly one timer is pending, with
  the deadline of the last call plus \<open>DEBOUNCE_TIME\<close>; before that deadline nothing
  has fired; from that deadline on exactly one timer has fired, at the deadline,
  and none is left. Every firing is one run of \<open>updateMugTexture\<close>.
\<close>

theorem debounce_coalesces:
  assumes "timers d = []" "ts \<noteq> []" "now d \<le> hd ts" "gapsBelow DEBOUNCE_TIME ts"
  shows "fired (burst d ts) = fired d \<and>
         map snd (timers (burst d ts)) = [last ts + DEBOUNCE_TIME] \<and>
         (T < last ts + DEBOUNCE_TIME \<longrightarrow> fired (advance T (burst d ts)) = fired d) \<and>
         (last ts + DEBOUNCE_TIME \<le> T \<longrightarrow>
            fired (advance T (burst d ts)) = fired d @ [last ts + DEBOUNCE_TIME] \<and>
            timers (advance T (burst d ts)) = [])"
proof -
  from assms(2) obtain a rest where ts: "ts = a # rest" by (cases ts) auto
  from burst_nonempty [of d a rest] assms ts
  obtain j where j: "timers (burst d ts) = [(j, last ts + DEBOUNCE_TIME)]"
    "now (burst d ts) = last ts" "fired (burst d ts) = fired d"
    by auto
  have early: "T < last ts + DEBOUNCE_TIME \<longrightarrow> fired (advance T (burst d ts)) = fired d"
    using advance_single_early [OF j(1), of T] j(3) by simp
  have late: "last ts + DEBOUNCE_TIME \<le> T \<longrightarrow>
      fired (advance T (burst d ts)) = fired d @ [last ts + DEBOUNCE_TIME] \<and>
      timers (advance T (burst d ts)) = []"
    using advance_single_due [OF j(1), of T] j(2,3) by simp
  from j(1,3) early late show ?thesis by simp
qed

text \<open>
  Three calls at 100, 350 and 600 ms: nothing has fired by 899 ms, and by 900 ms the
  one bake has run, at 900 ms.
\<close>

theorem debounce_coalesces_witness:
  "timers initialDesigner = [] \<and> gapsBelow DEBOUNCE_TIME [100, 350, 600] \<and>
   fired (advance 899 (burst initialDesigner [100, 350, 600])) = [] \<and>
   fired (advance 900 (burst initialDesigner [100, 350, 600])) = [900]"
  using debounce_coalesces [of initialDesigner "[100, 350, 600]" 899]
    debounce_coalesces [of initialDesigner "[100, 350, 600]" 900]
  by (simp add: initial_clock DEBOUNCE_TIME_def)

end
